theory Spec2Isabelle
  imports Complex_Main
begin

section \<open>The load-completion signal of the constructor\<close>

text \<open>
  The constructor of \<open>X3DomHelper\<close> creates the promise \<open>inlineLoaded\<close>. Its executor
  reads the list of \<open>inline\<close> elements below the scene element, keeps a counter
  \<open>loadedCnt\<close> and registers on every element a \<open>load\<close> listener that increments the
  counter and calls \<open>resolve\<close> once the counter has reached the length of the list.

  The elements of the node list are identified by their position \<open>0, ..., n - 1\<close>.
  A promise is settled by the first call of \<open>resolve\<close> only; later calls are ignored by
  the language. The field \<open>settlements\<close> counts the transitions from pending to
  fulfilled and \<open>resolveCalls\<close> counts the calls of \<open>resolve\<close>; both are bookkeeping of
  the model, not variables of the program.
\<close>

datatype promise_state = Pending | Fulfilled

record loader =
  inlineCount :: nat
  loadedCnt :: nat
  listeners :: "nat list"
  inlineLoaded :: promise_state
  settlements :: nat
  resolveCalls :: nat

definition resolve :: "loader \<Rightarrow> loader" where
  "resolve s =
     (case inlineLoaded s of
        Pending \<Rightarrow> s\<lparr>inlineLoaded := Fulfilled, settlements := settlements s + 1,
                      resolveCalls := resolveCalls s + 1\<rparr>
      | Fulfilled \<Rightarrow> s\<lparr>resolveCalls := resolveCalls s + 1\<rparr>)"

text \<open>The body of the listener: \<open>if (++loadedCnt >= inlineList.length) resolve();\<close>\<close>

definition on_load :: "loader \<Rightarrow> loader" where
  "on_load s =
     (let s' = s\<lparr>loadedCnt := loadedCnt s + 1\<rparr>
      in if loadedCnt s' \<ge> inlineCount s' then resolve s' else s')"

text \<open>\<open>inlineList.forEach(el => el.addEventListener('load', ...))\<close>\<close>

fun addListeners :: "nat list \<Rightarrow> loader \<Rightarrow> loader" where
  "addListeners [] s = s"
| "addListeners (el # els) s = addListeners els (s\<lparr>listeners := listeners s @ [el]\<rparr>)"

definition X3DomHelper_new :: "nat \<Rightarrow> loader" where
  "X3DomHelper_new n =
     (let s0 = \<lparr>inlineCount = n, loadedCnt = 0, listeners = [],
                 inlineLoaded = Pending, settlements = 0, resolveCalls = 0\<rparr>;
          s1 = (if n = 0 then resolve s0 else s0)
      in addListeners [0..<n] s1)"

text \<open>
  Delivering a \<open>load\<close> event to element \<open>el\<close> runs every listener registered on that
  element, in the order of registration. The listeners are plain ones: nothing
  removes a listener after it has run.
\<close>

fun runListeners :: "nat list \<Rightarrow> nat \<Rightarrow> loader \<Rightarrow> loader" where
  "runListeners [] el s = s"
| "runListeners (l # ls) el s = runListeners ls el (if l = el then on_load s else s)"

definition dispatchLoad :: "nat \<Rightarrow> loader \<Rightarrow> loader" where
  "dispatchLoad el s = runListeners (listeners s) el s"

fun dispatchAll :: "nat list \<Rightarrow> loader \<Rightarrow> loader" where
  "dispatchAll [] s = s"
| "dispatchAll (el # els) s = dispatchAll els (dispatchLoad el s)"

text \<open>The number of events of a trace that reach one of the \<open>n\<close> elements.\<close>

definition delivered :: "nat \<Rightarrow> nat list \<Rightarrow> nat" where
  "delivered n evs = length (filter (\<lambda>el. el < n) evs)"


section \<open>Numbers of the language\<close>

text \<open>
  A number of the program is a finite value, one of the two infinities, or
  not-a-number. A finite value is written as the real number it stands for. The
  result of an arithmetic operation is the exact result rounded to a number of the
  language; the rounding \<open>R\<close>, which sends a real to the nearest double and to an
  infinity when it is too large, belongs to the language runtime and is a parameter
  of every function that computes. Nothing is assumed about it. The sign of zero
  is not modelled: the only division by a value that can be zero is the one in
  \<open>zoom\<close>, whose quotient goes through \<open>Math.abs\<close>.
\<close>

datatype jsnum = Fin real | PInf | NInf | NaN

fun sign_of :: "jsnum \<Rightarrow> real" where
  "sign_of (Fin r) = sgn r"
| "sign_of PInf = 1"
| "sign_of NInf = - 1"
| "sign_of NaN = 0"

definition inf_of_sign :: "real \<Rightarrow> jsnum" where
  "inf_of_sign r = (if 0 < r then PInf else if r < 0 then NInf else NaN)"

text \<open>The exact product and quotient, with the special cases of the arithmetic.\<close>

fun exact_mul :: "jsnum \<Rightarrow> jsnum \<Rightarrow> jsnum" where
  "exact_mul NaN y = NaN"
| "exact_mul x NaN = NaN"
| "exact_mul (Fin a) (Fin b) = Fin (a * b)"
| "exact_mul x y = inf_of_sign (sign_of x * sign_of y)"

fun exact_div :: "jsnum \<Rightarrow> jsnum \<Rightarrow> jsnum" where
  "exact_div NaN y = NaN"
| "exact_div x NaN = NaN"
| "exact_div (Fin a) (Fin b) = (if b = 0 then inf_of_sign a else Fin (a / b))"
| "exact_div (Fin a) y = Fin 0"
| "exact_div x (Fin b) = inf_of_sign (sign_of x * (if b < 0 then - 1 else 1))"
| "exact_div x y = NaN"

text \<open>Rounding a result: a finite value is rounded by \<open>R\<close>, the other values stay.\<close>

fun fl :: "(real \<Rightarrow> jsnum) \<Rightarrow> jsnum \<Rightarrow> jsnum" where
  "fl R (Fin r) = R r"
| "fl R x = x"

text \<open>The operators \<open>*\<close> and \<open>/\<close> of the program.\<close>

definition js_mul :: "(real \<Rightarrow> jsnum) \<Rightarrow> jsnum \<Rightarrow> jsnum \<Rightarrow> jsnum" where
  "js_mul R x y = fl R (exact_mul x y)"

definition js_div :: "(real \<Rightarrow> jsnum) \<Rightarrow> jsnum \<Rightarrow> jsnum \<Rightarrow> jsnum" where
  "js_div R x y = fl R (exact_div x y)"

fun js_neg :: "jsnum \<Rightarrow> jsnum" where
  "js_neg (Fin r) = Fin (- r)"
| "js_neg PInf = NInf"
| "js_neg NInf = PInf"
| "js_neg NaN = NaN"

fun js_abs :: "jsnum \<Rightarrow> jsnum" where
  "js_abs (Fin r) = Fin \<bar>r\<bar>"
| "js_abs PInf = PInf"
| "js_abs NInf = PInf"
| "js_abs NaN = NaN"

fun js_gt :: "jsnum \<Rightarrow> jsnum \<Rightarrow> bool" where
  "js_gt NaN y = False"
| "js_gt x NaN = False"
| "js_gt (Fin a) (Fin b) = (b < a)"
| "js_gt PInf PInf = False"
| "js_gt PInf y = True"
| "js_gt NInf y = False"
| "js_gt (Fin a) NInf = True"
| "js_gt (Fin a) PInf = False"

text \<open>A parameter with a default value: \<open>None\<close> is the argument left out.\<close>

definition withDefault :: "'a \<Rightarrow> 'a option \<Rightarrow> 'a" where
  "withDefault d v = (case v of None \<Rightarrow> d | Some x \<Rightarrow> x)"

datatype error = TypeError | RangeError string

section \<open>Helpers\<close>

text \<open>
  \<open>getRadian(deg)\<close>: \<open>Math.PI * deg / 180\<close>, the product first. \<open>Math.PI\<close> is the
  number nearest to \<open>pi\<close>.
\<close>

definition Math_PI :: "(real \<Rightarrow> jsnum) \<Rightarrow> jsnum" where
  "Math_PI R = R pi"

definition getRadian :: "(real \<Rightarrow> jsnum) \<Rightarrow> jsnum \<Rightarrow> jsnum" where
  "getRadian R deg = js_div R (js_mul R (Math_PI R) deg) (Fin 180)"

text \<open>\<open>getDegree(rad)\<close>: \<open>rad * 180 / Math.PI\<close>.\<close>

definition getDegree :: "(real \<Rightarrow> jsnum) \<Rightarrow> jsnum \<Rightarrow> jsnum" where
  "getDegree R rad = js_div R (js_mul R rad (Fin 180)) (Math_PI R)"

subsection \<open>The pieces of the language that \<open>hexToRgbLine\<close> calls\<close>

text \<open>
  A string is a list of characters with codes below 256. \<open>hex.match(/.{1,2}/g)\<close>
  returns the successive matches of one or two characters none of which is a line
  terminator, the longer match first, or \<open>null\<close> when there is no match.
\<close>

definition isLineTerminator :: "char \<Rightarrow> bool" where
  "isLineTerminator c = (c = CHR 0x0A \<or> c = CHR 0x0D)"

fun matchPairs :: "string \<Rightarrow> string list" where
  "matchPairs [] = []"
| "matchPairs [c] = (if isLineTerminator c then [] else [[c]])"
| "matchPairs (c # d # cs) =
     (if isLineTerminator c then matchPairs (d # cs)
      else if isLineTerminator d then [c] # matchPairs (d # cs)
      else [c, d] # matchPairs cs)"

text \<open>
  \<open>parseInt(s, 16)\<close>: leading white space is skipped, then an optional sign, then an
  optional prefix \<open>0x\<close> or \<open>0X\<close>; the longest run of hexadecimal digits that follows is
  the value, and an empty run gives not-a-number.
\<close>

definition isWhiteSpace :: "char \<Rightarrow> bool" where
  "isWhiteSpace c =
     (c = CHR 0x09 \<or> c = CHR 0x0B \<or> c = CHR 0x0C \<or> c = CHR 0x20 \<or> c = CHR 0xA0
      \<or> isLineTerminator c)"

definition hexDigit :: "char \<Rightarrow> nat option" where
  "hexDigit c =
     (let n = (of_char c :: nat)
      in if 48 \<le> n \<and> n \<le> 57 then Some (n - 48)
         else if 65 \<le> n \<and> n \<le> 70 then Some (n - 55)
         else if 97 \<le> n \<and> n \<le> 102 then Some (n - 87)
         else None)"

fun hexRun :: "string \<Rightarrow> nat list" where
  "hexRun [] = []"
| "hexRun (c # cs) = (case hexDigit c of None \<Rightarrow> [] | Some v \<Rightarrow> v # hexRun cs)"

fun hexValue :: "nat \<Rightarrow> nat list \<Rightarrow> nat" where
  "hexValue acc [] = acc"
| "hexValue acc (v # vs) = hexValue (16 * acc + v) vs"

fun stripSign :: "string \<Rightarrow> real \<times> string" where
  "stripSign [] = (1, [])"
| "stripSign (c # cs) =
     (if c = CHR ''-'' then (- 1, cs) else if c = CHR ''+'' then (1, cs) else (1, c # cs))"

fun stripPrefix :: "string \<Rightarrow> string" where
  "stripPrefix (c # d # cs) =
     (if c = CHR ''0'' \<and> (d = CHR ''x'' \<or> d = CHR ''X'') then cs else c # d # cs)"
| "stripPrefix cs = cs"

definition parseInt16 :: "string \<Rightarrow> jsnum" where
  "parseInt16 s =
     (let (sign, s1) = stripSign (dropWhile isWhiteSpace s);
          z = hexRun (stripPrefix s1)
      in if z = [] then NaN else Fin (sign * real (hexValue 0 z)))"

text \<open>
  The conversion of a number to a string. An integral value below \<open>10^21\<close> in size is
  written in decimal digits. The text of any other finite value is the shortest
  decimal that reads back as the same double; that rendering belongs to the language
  runtime and is the parameter \<open>fmt\<close>.
\<close>

fun digitsOfNat :: "nat \<Rightarrow> string" where
  "digitsOfNat n =
     (if n < 10 then [''0123456789'' ! n]
      else digitsOfNat (n div 10) @ [''0123456789'' ! (n mod 10)])"

declare digitsOfNat.simps [simp del]

definition numberToString :: "(real \<Rightarrow> string) \<Rightarrow> jsnum \<Rightarrow> string" where
  "numberToString fmt v =
     (case v of
        NaN \<Rightarrow> ''NaN''
      | PInf \<Rightarrow> ''Infinity''
      | NInf \<Rightarrow> ''-Infinity''
      | Fin r \<Rightarrow>
          if r = of_int \<lfloor>r\<rfloor> \<and> \<bar>r\<bar> < 10 ^ 21
          then (if r < 0 then ''-'' @ digitsOfNat (nat (- \<lfloor>r\<rfloor>)) else digitsOfNat (nat \<lfloor>r\<rfloor>))
          else fmt r)"

fun joinWith :: "string \<Rightarrow> string list \<Rightarrow> string" where
  "joinWith sep [] = []"
| "joinWith sep [x] = x"
| "joinWith sep (x # y # ys) = x @ sep @ joinWith sep (y # ys)"

text \<open>
  \<open>parts[i]\<close>: an index past the end of the array reads \<open>undefined\<close>, which \<open>parseInt\<close>
  converts to the string \<open>undefined\<close> before parsing.
\<close>

definition part :: "string list \<Rightarrow> nat \<Rightarrow> string" where
  "part parts i = (if i < length parts then parts ! i else ''undefined'')"

subsection \<open>\<open>hexToRgbLine\<close>\<close>

text \<open>
  When \<open>match\<close> returns \<open>null\<close> the read of \<open>parts[0]\<close> raises a \<open>TypeError\<close>. The
  quotient of a channel is handed on exact: \<open>numberToString\<close> renders the double
  nearest to it, so the rounding of the division and the rendering are one step.
\<close>

definition hexToRgbLine :: "(real \<Rightarrow> string) \<Rightarrow> string \<Rightarrow> error + string" where
  "hexToRgbLine fmt hex =
     (let parts = matchPairs hex
      in if parts = [] then Inl TypeError
         else
           (let r = exact_div (parseInt16 (part parts 0)) (Fin 255);
                g = exact_div (parseInt16 (part parts 1)) (Fin 255);
                b = exact_div (parseInt16 (part parts 2)) (Fin 255)
            in Inr (joinWith '' '' (map (numberToString fmt) [r, g, b]))))"

section \<open>Static methods on shape elements\<close>

text \<open>
  The document is not part of the repository. Two things about it matter here and
  are the fields of a \<open>dom\<close>: whether it is an HTML or an XHTML document, and the
  text that reading \<open>outerHTML\<close> returns for an element. In an HTML document a
  selector matches a tag name in any letter case, in an XHTML document only as
  written. The text of \<open>outerHTML\<close> is the browser's serialisation of the element; it
  begins with \<open><\<close>, and the rest is the field \<open>serializeRest\<close>, a function of the markup
  the element was parsed from.

  A shape element as far as \<open>highlightShape\<close> and \<open>restoreShapeColor\<close> see it: the
  markup last written at the place of its appearance child, by the page or by an
  assignment to \<open>outerHTML\<close> (\<open>None\<close> when the shape has no such child), and the
  property \<open>origAppearance\<close> that the code attaches to the element. A property never
  assigned reads \<open>undefined\<close>.

  \<open>el.querySelector('appearance')\<close> finds an element only when the markup at that
  place begins with a start tag of that name. Assigning to \<open>outerHTML\<close> replaces the
  markup by the assigned value converted to a string: \<open>null\<close> becomes the empty string,
  \<open>undefined\<close> the text \<open>undefined\<close>. Markup that an XHTML document would refuse as
  ill-formed is not modelled.
\<close>

datatype docKind = HTML | XHTML

record dom =
  kind :: docKind
  serializeRest :: "string \<Rightarrow> string"


datatype jsval = JUndefined | JNull | JStr string

record shape =
  appearanceMarkup :: "string option"
  origAppearance :: jsval

fun truthy :: "jsval \<Rightarrow> bool" where
  "truthy JUndefined = False"
| "truthy JNull = False"
| "truthy (JStr s) = (s \<noteq> [])"

fun toMarkup :: "jsval \<Rightarrow> string" where
  "toMarkup JUndefined = ''undefined''"
| "toMarkup JNull = []"
| "toMarkup (JStr s) = s"

definition toLower :: "char \<Rightarrow> char" where
  "toLower c =
     (case map_of (zip ''ABCDEFGHIJKLMNOPQRSTUVWXYZ'' ''abcdefghijklmnopqrstuvwxyz'') c of
        None \<Rightarrow> c
      | Some l \<Rightarrow> l)"

text \<open>
  The characters that end a tag name: \<open>></\<close>, \<open>/\<close>, tab, line feed, carriage return and
  space, and in an HTML document also form feed.
\<close>

definition isTagEnd :: "docKind \<Rightarrow> char \<Rightarrow> bool" where
  "isTagEnd k c =
     (c = CHR ''>'' \<or> c = CHR ''/'' \<or> c = CHR 0x09 \<or> c = CHR 0x0A \<or> c = CHR 0x0D
      \<or> c = CHR 0x20 \<or> (k = HTML \<and> c = CHR 0x0C))"

definition tagName :: "docKind \<Rightarrow> string \<Rightarrow> string" where
  "tagName k s = (case k of HTML \<Rightarrow> map toLower s | XHTML \<Rightarrow> s)"

definition isAppearanceMarkup :: "docKind \<Rightarrow> string \<Rightarrow> bool" where
  "isAppearanceMarkup k m =
     (case m of
        [] \<Rightarrow> False
      | c # r \<Rightarrow>
          c = CHR ''<'' \<and> tagName k (take 10 r) = ''appearance''
          \<and> (case drop 10 r of [] \<Rightarrow> False | d # _ \<Rightarrow> isTagEnd k d)
          \<and> CHR ''>'' \<in> set (drop 10 r))"

definition querySelectorAppearance :: "dom \<Rightarrow> shape \<Rightarrow> string option" where
  "querySelectorAppearance D el =
     (case appearanceMarkup el of
        None \<Rightarrow> None
      | Some w \<Rightarrow> if isAppearanceMarkup (kind D) w then Some w else None)"



text \<open>\<open>restoreShapeColor(el)\<close>\<close>

definition restoreShapeColor :: "dom \<Rightarrow> shape \<Rightarrow> error + shape" where
  "restoreShapeColor D el =
     (case querySelectorAppearance D el of
        None \<Rightarrow> Inl TypeError
      | Some w \<Rightarrow>
          Inr (el\<lparr>appearanceMarkup := Some (toMarkup (origAppearance el)),
                   origAppearance := JNull\<rparr>))"


section \<open>Camera operations\<close>

text \<open>
  The rendering engine is not part of the repository. Its matrices are values of a
  type \<open>'m\<close> and the state of its runtime is a value of a type \<open>'e\<close>. The operations
  that the code calls are the fields of an \<open>engine\<close>: the four of
  \<open>x3dom.fields.SFMatrix4f\<close>, where \<open>mult E a b\<close> stands for \<open>a.mult(b)\<close> and the argument
  of \<open>scale\<close> is the \<open>SFVec3f\<close> built from three numbers; \<open>viewMatrix\<close>, the matrix that
  \<open>runtime.viewMatrix()\<close> returns in a state of the runtime; the change that
  \<open>viewpoint.setView(matrix)\<close> and \<open>_viewarea.animateTo(matrix, viewpoint, seconds)\<close> make to
  that state; and \<open>elapse\<close>, the change that the passing of some milliseconds makes
  to it, a running transition for one.

  The state of a helper holds the state of the runtime, the flag \<open>needRender\<close>, the
  calls made into the engine so far (a record kept by the model), the time in
  milliseconds and the pending timers with the time at which each becomes due.
\<close>

record ('m, 'e) engine =
  rotationX :: "jsnum \<Rightarrow> 'm"
  rotationY :: "jsnum \<Rightarrow> 'm"
  scale :: "jsnum \<times> jsnum \<times> jsnum \<Rightarrow> 'm"
  mult :: "'m \<Rightarrow> 'm \<Rightarrow> 'm"
  viewMatrix :: "'e \<Rightarrow> 'm"
  setView :: "'m \<Rightarrow> 'e \<Rightarrow> 'e"
  animateTo :: "'m \<Rightarrow> jsnum \<Rightarrow> 'e \<Rightarrow> 'e"
  elapse :: "real \<Rightarrow> 'e \<Rightarrow> 'e"

datatype 'm call =
    GetViewpoint
  | GetViewMatrix
  | RotationX jsnum
  | RotationY jsnum
  | Scale "jsnum \<times> jsnum \<times> jsnum"
  | Mult 'm 'm
  | AnimateTo 'm jsnum
  | SetView 'm

text \<open>The deferred callback \<open>() => this.rotate(axis, angle, animate, duration)\<close>.\<close>

datatype task = RotateTask string jsnum bool jsnum

record ('m, 'e) helper =
  runtime :: 'e
  needRender :: bool
  calls :: "'m call list"
  clock :: real
  timers :: "(real \<times> task) list"

definition X_AXIS :: string where "X_AXIS = ''x''"
definition Y_AXIS :: string where "Y_AXIS = ''y''"

definition logCall :: "'m call \<Rightarrow> ('m, 'e) helper \<Rightarrow> ('m, 'e) helper" where
  "logCall c s = s\<lparr>calls := calls s @ [c]\<rparr>"

text \<open>\<open>_getCameraMeta()\<close>; of the object it returns only the matrix is a value of the model.\<close>

definition getCameraMeta :: "('m, 'e) engine \<Rightarrow> ('m, 'e) helper \<Rightarrow> 'm \<times> ('m, 'e) helper" where
  "getCameraMeta E s = (viewMatrix E (runtime s), logCall GetViewMatrix (logCall GetViewpoint s))"

text \<open>\<open>_updateViewpoint(matrix, animate, duration)\<close>\<close>

definition updateViewpoint ::
  "(real \<Rightarrow> jsnum) \<Rightarrow> ('m, 'e) engine \<Rightarrow> 'm \<Rightarrow> bool \<Rightarrow> jsnum \<Rightarrow> ('m, 'e) helper
     \<Rightarrow> ('m, 'e) helper" where
  "updateViewpoint R E matrix animate duration s =
     (let (camera, s1) = getCameraMeta E s;
          s2 = (if animate then
                  (let seconds = js_div R duration (Fin 1000)
                   in (logCall (AnimateTo matrix seconds) s1)
                        \<lparr>runtime := animateTo E matrix seconds (runtime s1)\<rparr>)
                else (logCall (SetView matrix) s1)\<lparr>runtime := setView E matrix (runtime s1)\<rparr>)
      in s2\<lparr>needRender := True\<rparr>)"

text \<open>\<open>rotate(axis, angle, animate = true, duration = 400)\<close>\<close>

definition rotate_scene ::
  "(real \<Rightarrow> jsnum) \<Rightarrow> ('m, 'e) engine \<Rightarrow> string \<Rightarrow> jsnum \<Rightarrow> bool option \<Rightarrow> jsnum option
     \<Rightarrow> ('m, 'e) helper \<Rightarrow> (error + unit) \<times> ('m, 'e) helper" where
  "rotate_scene R E axis angle animate duration s =
     (let (matrix, s1) = getCameraMeta E s;
          rad = getRadian R angle
      in if axis = X_AXIS then
           (let rotationMatrix = rotationX E rad;
                s2 = logCall (RotationX rad) s1;
                newMatrix = mult E matrix rotationMatrix;
                s3 = logCall (Mult matrix rotationMatrix) s2
            in (Inr (), updateViewpoint R E newMatrix (withDefault True animate)
                          (withDefault (Fin 400) duration) s3))
         else if axis = Y_AXIS then
           (let rotationMatrix = rotationY E rad;
                s2 = logCall (RotationY rad) s1;
                newMatrix = mult E matrix rotationMatrix;
                s3 = logCall (Mult matrix rotationMatrix) s2
            in (Inr (), updateViewpoint R E newMatrix (withDefault True animate)
                          (withDefault (Fin 400) duration) s3))
         else (Inl (RangeError (''Axis \"'' @ axis @ ''\" is not supported!'')), s1))"

text \<open>
  Timers. \<open>setTimeout(callback, delay)\<close> queues the callback. The browser converts the
  delay to a 32-bit signed integer: a value that is not finite becomes 0, a finite
  one is cut to a whole number and wrapped modulo \<open>2^32\<close> into the range from \<open>-2^31\<close>
  to \<open>2^31 - 1\<close>; a negative result counts as 0. The callback becomes due that many
  milliseconds after the call.
\<close>

definition toInt32 :: "jsnum \<Rightarrow> int" where
  "toInt32 v =
     (case v of
        Fin r \<Rightarrow>
          (let n = (if 0 \<le> r then \<lfloor>r\<rfloor> else \<lceil>r\<rceil>) mod 2 ^ 32
           in if 2 ^ 31 \<le> n then n - 2 ^ 32 else n)
      | _ \<Rightarrow> 0)"

definition timerDelay :: "jsnum \<Rightarrow> real" where
  "timerDelay v = real_of_int (max 0 (toInt32 v))"

definition setTimeout :: "task \<Rightarrow> jsnum \<Rightarrow> ('m, 'e) helper \<Rightarrow> ('m, 'e) helper" where
  "setTimeout k delay s = s\<lparr>timers := timers s @ [(clock s + timerDelay delay, k)]\<rparr>"

text \<open>
  The passing of time. \<open>passTime\<close> moves the clock forward to \<open>t\<close> and lets the engine
  see the milliseconds that passed. \<open>advanceTo\<close> moves the time forward to \<open>t\<close> and on
  the way runs the callbacks that are due by then, the earliest first, each at the
  time it is due (or at once when that time has passed already); a callback is
  never run before it is due. The only callback of the program is the rotation,
  which queues no timer itself.
\<close>

definition passTime :: "('m, 'e) engine \<Rightarrow> real \<Rightarrow> ('m, 'e) helper \<Rightarrow> ('m, 'e) helper" where
  "passTime E t s =
     (if clock s < t then s\<lparr>runtime := elapse E (t - clock s) (runtime s), clock := t\<rparr> else s)"

fun runTask ::
  "(real \<Rightarrow> jsnum) \<Rightarrow> ('m, 'e) engine \<Rightarrow> task \<Rightarrow> ('m, 'e) helper \<Rightarrow> ('m, 'e) helper" where
  "runTask R E (RotateTask axis angle animate duration) s =
     snd (rotate_scene R E axis angle (Some animate) (Some duration) s)"

fun runTasks ::
  "(real \<Rightarrow> jsnum) \<Rightarrow> ('m, 'e) engine \<Rightarrow> (real \<times> task) list \<Rightarrow> ('m, 'e) helper
     \<Rightarrow> ('m, 'e) helper" where
  "runTasks R E [] s = s"
| "runTasks R E ((due, k) # ks) s = runTasks R E ks (runTask R E k (passTime E due s))"

definition advanceTo ::
  "(real \<Rightarrow> jsnum) \<Rightarrow> ('m, 'e) engine \<Rightarrow> real \<Rightarrow> ('m, 'e) helper \<Rightarrow> ('m, 'e) helper" where
  "advanceTo R E t s =
     (if t < clock s then s
      else
        (let due = sort_key fst (filter (\<lambda>e. fst e \<le> t) (timers s));
             s1 = s\<lparr>timers := filter (\<lambda>e. \<not> fst e \<le> t) (timers s)\<rparr>
         in passTime E t (runTasks R E due s1)))"

text \<open>\<open>rotateRoundY(duration = 4000)\<close>\<close>

definition rotateRoundY ::
  "(real \<Rightarrow> jsnum) \<Rightarrow> ('m, 'e) engine \<Rightarrow> jsnum option \<Rightarrow> ('m, 'e) helper
     \<Rightarrow> (error + unit) \<times> ('m, 'e) helper" where
  "rotateRoundY R E duration s =
     (let halfTime = js_div R (withDefault (Fin 4000) duration) (Fin 2)
      in case rotate_scene R E Y_AXIS (Fin 180) (Some True) (Some halfTime) s of
           (Inl e, s1) \<Rightarrow> (Inl e, s1)
         | (Inr u, s1) \<Rightarrow>
             (Inr (), setTimeout (RotateTask Y_AXIS (Fin 180) True halfTime) halfTime s1))"

text \<open>\<open>rotateX(angle)\<close> and \<open>rotateY(angle)\<close>\<close>

definition rotateX ::
  "(real \<Rightarrow> jsnum) \<Rightarrow> ('m, 'e) engine \<Rightarrow> jsnum \<Rightarrow> ('m, 'e) helper
     \<Rightarrow> (error + unit) \<times> ('m, 'e) helper" where
  "rotateX R E angle s = rotate_scene R E X_AXIS angle None None s"

definition rotateY ::
  "(real \<Rightarrow> jsnum) \<Rightarrow> ('m, 'e) engine \<Rightarrow> jsnum \<Rightarrow> ('m, 'e) helper
     \<Rightarrow> (error + unit) \<times> ('m, 'e) helper" where
  "rotateY R E angle s = rotate_scene R E Y_AXIS angle None None s"

text \<open>
  \<open>zoom(zoomValue = 2, animate = true, duration = 400)\<close>. \<open>zoomScalar\<close> is the
  expression \<open>zoomValue > 0 ? (1 * zoomValue) : Math.abs(1 / zoomValue)\<close>.
\<close>

definition zoomScalar :: "(real \<Rightarrow> jsnum) \<Rightarrow> jsnum \<Rightarrow> jsnum" where
  "zoomScalar R zoomValue =
     (if js_gt zoomValue (Fin 0) then js_mul R (Fin 1) zoomValue
      else js_abs (js_div R (Fin 1) zoomValue))"

definition zoom ::
  "(real \<Rightarrow> jsnum) \<Rightarrow> ('m, 'e) engine \<Rightarrow> jsnum option \<Rightarrow> bool option \<Rightarrow> jsnum option
     \<Rightarrow> ('m, 'e) helper \<Rightarrow> ('m, 'e) helper" where
  "zoom R E zoomValue animate duration s =
     (let (matrix, s1) = getCameraMeta E s;
          scalar = zoomScalar R (withDefault (Fin 2) zoomValue);
          scalingMatrix = scale E (scalar, scalar, scalar);
          s2 = logCall (Scale (scalar, scalar, scalar)) s1;
          newMatrix = mult E matrix scalingMatrix;
          s3 = logCall (Mult matrix scalingMatrix) s2
      in updateViewpoint R E newMatrix (withDefault True animate)
           (withDefault (Fin 400) duration) s3)"

text \<open>\<open>zoomIn\<close> and \<open>zoomOut\<close>, both with the defaults \<open>(2, true, 400)\<close>.\<close>

definition zoomIn ::
  "(real \<Rightarrow> jsnum) \<Rightarrow> ('m, 'e) engine \<Rightarrow> jsnum option \<Rightarrow> bool option \<Rightarrow> jsnum option
     \<Rightarrow> ('m, 'e) helper \<Rightarrow> ('m, 'e) helper" where
  "zoomIn R E zoomValue animate duration s =
     zoom R E (Some (js_abs (withDefault (Fin 2) zoomValue)))
       (Some (withDefault True animate)) (Some (withDefault (Fin 400) duration)) s"

definition zoomOut ::
  "(real \<Rightarrow> jsnum) \<Rightarrow> ('m, 'e) engine \<Rightarrow> jsnum option \<Rightarrow> bool option \<Rightarrow> jsnum option
     \<Rightarrow> ('m, 'e) helper \<Rightarrow> ('m, 'e) helper" where
  "zoomOut R E zoomValue animate duration s =
     zoom R E (Some (js_mul R (js_abs (withDefault (Fin 2) zoomValue)) (Fin (- 1))))
       (Some (withDefault True animate)) (Some (withDefault (Fin 400) duration)) s"

section \<open>Notions used in the statements\<close>

text \<open>
  The invariant of the load counter for \<open>n\<close> inline elements: the listeners are those
  of the \<open>n\<close> elements, and the promise is fulfilled, with one settlement, exactly when
  the counter has reached \<open>n\<close>.
\<close>

definition loader_inv :: "nat \<Rightarrow> loader \<Rightarrow> bool" where
  "loader_inv n s =
     (listeners s = [0..<n] \<and> inlineCount s = n
      \<and> inlineLoaded s = (if n \<le> loadedCnt s then Fulfilled else Pending)
      \<and> settlements s = (if n \<le> loadedCnt s then 1 else 0))"

text \<open>The engine calls that build or compose a matrix.\<close>

fun matrixComputation :: "'m call \<Rightarrow> bool" where
  "matrixComputation (RotationX a) = True"
| "matrixComputation (RotationY a) = True"
| "matrixComputation (Scale v) = True"
| "matrixComputation (Mult a b) = True"
| "matrixComputation c = False"

text \<open>
  The angle \<open>deg\<close> in radians, as the arithmetic of the language computes it: the
  number nearest to \<open>pi\<close> times \<open>deg\<close>, rounded, over 180, rounded.
\<close>

definition radians :: "(real \<Rightarrow> jsnum) \<Rightarrow> jsnum \<Rightarrow> jsnum" where
  "radians R deg = fl R (exact_div (fl R (exact_mul (R pi) deg)) (Fin 180))"

text \<open>
  The engine calls of one animated turn about the Y axis by the angle \<open>rad\<close> from view
  matrix \<open>m\<close>, the transition lasting \<open>secs\<close> seconds.
\<close>

definition rotateYCalls :: "('m, 'e) engine \<Rightarrow> 'm \<Rightarrow> jsnum \<Rightarrow> jsnum \<Rightarrow> 'm call list" where
  "rotateYCalls E m rad secs =
     [GetViewpoint, GetViewMatrix, RotationY rad, Mult m (rotationY E rad),
      GetViewpoint, GetViewMatrix, AnimateTo (mult E m (rotationY E rad)) secs]"

text \<open>A rounding that treats a value and its negative alike.\<close>

definition symmetricRounding :: "(real \<Rightarrow> jsnum) \<Rightarrow> bool" where
  "symmetricRounding R = (\<forall>x. R (- x) = js_neg (R x))"

text \<open>The text of one colour channel: the byte \<open>16 * hi + lo\<close> divided by 255.\<close>

definition channel :: "(real \<Rightarrow> string) \<Rightarrow> nat \<Rightarrow> nat \<Rightarrow> string" where
  "channel fmt hi lo = numberToString fmt (Fin (real (16 * hi + lo) / 255))"

text \<open>
  Concrete inputs for the examples. A rounding that keeps every value up to 1000 in
  size and overflows beyond. An engine whose matrices are strings and whose product
  is concatenation, so that the order of the operands shows; the state of its
  runtime is the current matrix, which \<open>setView\<close> and \<open>animateTo\<close> replace at once. A
  state of the helper with view matrix \<open>M\<close>. An HTML and an XHTML document whose
  serialisation returns the markup as written. A shape that was never highlighted.
\<close>

definition toyRound :: "real \<Rightarrow> jsnum" where
  "toyRound r = (if 1000 < \<bar>r\<bar> then inf_of_sign r else Fin r)"

definition toyEngine :: "(string, string) engine" where
  "toyEngine = \<lparr>rotationX = (\<lambda>a. ''X''), rotationY = (\<lambda>a. ''Y''),
                 scale = (\<lambda>v. ''S''), mult = (\<lambda>a b. a @ b),
                 viewMatrix = (\<lambda>e. e), setView = (\<lambda>m e. m), animateTo = (\<lambda>m d e. m),
                 elapse = (\<lambda>dt e. e)\<rparr>"

definition toyHelper :: "(string, string) helper" where
  "toyHelper = \<lparr>runtime = ''M'', needRender = False, calls = [], clock = 0, timers = []\<rparr>"

definition htmlDoc :: dom where
  "htmlDoc = \<lparr>kind = HTML, serializeRest = tl\<rparr>"

definition xhtmlDoc :: dom where
  "xhtmlDoc = \<lparr>kind = XHTML, serializeRest = tl\<rparr>"

definition toyShape :: shape where
  "toyShape = \<lparr>appearanceMarkup = Some ''<appearance><material></material></appearance>'',
                origAppearance = JUndefined\<rparr>"

section \<open>The load-completion signal\<close>

lemma addListeners_append: "addListeners els s = s\<lparr>listeners := listeners s @ els\<rparr>"
  by (induction els arbitrary: s) simp_all

lemma runListeners_append:
  "runListeners (xs @ ys) el s = runListeners ys el (runListeners xs el s)"
  by (induction xs arbitrary: s) simp_all

lemma runListeners_upt: "runListeners [0..<n] el s = (if el < n then on_load s else s)"
  by (induction n) (auto simp: runListeners_append)

lemma on_load_fields:
  "listeners (on_load s) = listeners s" "inlineCount (on_load s) = inlineCount s"
  "loadedCnt (on_load s) = loadedCnt s + 1"
  by (simp_all add: on_load_def resolve_def Let_def split: promise_state.splits)

lemma loader_inv_new: "loader_inv n (X3DomHelper_new n) \<and> loadedCnt (X3DomHelper_new n) = 0"
  by (simp add: loader_inv_def X3DomHelper_new_def addListeners_append resolve_def Let_def)

lemma loader_inv_on_load: "loader_inv n s \<Longrightarrow> loader_inv n (on_load s)"
  by (auto simp: loader_inv_def on_load_def resolve_def Let_def
        split: promise_state.splits if_splits)

lemma loader_inv_dispatch:
  "loader_inv n s \<Longrightarrow>
     loader_inv n (dispatchLoad el s)
     \<and> loadedCnt (dispatchLoad el s) = loadedCnt s + (if el < n then 1 else 0)"
  by (simp add: dispatchLoad_def loader_inv_def[of n s] runListeners_upt loader_inv_on_load
        on_load_fields del: upt_Suc)

lemma loader_inv_dispatchAll:
  "loader_inv n s \<Longrightarrow>
     loader_inv n (dispatchAll evs s)
     \<and> loadedCnt (dispatchAll evs s) = loadedCnt s + delivered n evs"
proof (induction evs arbitrary: s)
  case Nil
  then show ?case by (simp add: delivered_def)
next
  case (Cons el evs)
  from loader_inv_dispatch[OF Cons.prems, of el]
  have i: "loader_inv n (dispatchLoad el s)"
    and c: "loadedCnt (dispatchLoad el s) = loadedCnt s + (if el < n then 1 else 0)"
    by simp_all
  from Cons.IH[OF i] c show ?case by (simp add: delivered_def)
qed

text \<open>
  C1. After construction over \<open>n\<close> inline elements and any sequence \<open>evs\<close> of load
  events, the counter equals the number of events delivered, the promise is
  fulfilled exactly when that number has reached \<open>n\<close> (at once when \<open>n = 0\<close>), and it
  has been settled once if fulfilled and never otherwise: events after the
  resolution do not settle it again. The listener has no failing step, so no event
  raises an error.
\<close>

theorem inlineLoaded_resolves_exactly_once:
  "loadedCnt (dispatchAll evs (X3DomHelper_new n)) = delivered n evs
   \<and> inlineLoaded (dispatchAll evs (X3DomHelper_new n))
       = (if n \<le> delivered n evs then Fulfilled else Pending)
   \<and> settlements (dispatchAll evs (X3DomHelper_new n))
       = (if n \<le> delivered n evs then 1 else 0)"
proof -
  let ?s = "dispatchAll evs (X3DomHelper_new n)"
  from loader_inv_new[of n] loader_inv_dispatchAll[of n "X3DomHelper_new n" evs]
  have i: "loader_inv n ?s" and c: "loadedCnt ?s = delivered n evs" by simp_all
  from i c show ?thesis by (simp add: loader_inv_def)
qed

text \<open>
  With no inline element the promise is fulfilled by the constructor; with two, one
  event leaves it pending, and four events fulfil it with a single settlement
  although \<open>resolve\<close> has been called three times.
\<close>

theorem inlineLoaded_resolves_exactly_once_witness:
  "inlineLoaded (dispatchAll [] (X3DomHelper_new 0)) = Fulfilled
   \<and> settlements (dispatchAll [] (X3DomHelper_new 0)) = 1
   \<and> inlineLoaded (dispatchAll [1] (X3DomHelper_new 2)) = Pending
   \<and> settlements (dispatchAll [1] (X3DomHelper_new 2)) = 0
   \<and> inlineLoaded (dispatchAll [1, 0, 0, 1] (X3DomHelper_new 2)) = Fulfilled
   \<and> settlements (dispatchAll [1, 0, 0, 1] (X3DomHelper_new 2)) = 1
   \<and> resolveCalls (dispatchAll [1, 0, 0, 1] (X3DomHelper_new 2)) = 3"
  using inlineLoaded_resolves_exactly_once[of "[]" 0]
    inlineLoaded_resolves_exactly_once[of "[1]" 2]
    inlineLoaded_resolves_exactly_once[of "[1, 0, 0, 1]" 2]
  by (simp add: delivered_def X3DomHelper_new_def dispatchLoad_def on_load_def resolve_def upt_rec)

text \<open>
  C2. The listeners are not one-time listeners and the counter is shared by all
  elements. With two inline elements, two load events of element 0 fulfil the
  promise although element 1 has not fired: the signal does not wait for every
  element.
\<close>

theorem repeated_load_of_one_element_resolves:
  "inlineLoaded (dispatchAll [0] (X3DomHelper_new 2)) = Pending
   \<and> inlineLoaded (dispatchAll [0, 0] (X3DomHelper_new 2)) = Fulfilled
   \<and> 1 \<notin> set [0, 0 :: nat]"
  by (simp add: X3DomHelper_new_def dispatchLoad_def on_load_def resolve_def upt_rec)

section \<open>Rotation and zoom\<close>

lemma getRadian_radians: "getRadian R deg = radians R deg"
  by (simp add: getRadian_def radians_def js_div_def js_mul_def Math_PI_def)

lemma getCameraMeta_eq:
  "getCameraMeta E s =
     (viewMatrix E (runtime s), s\<lparr>calls := calls s @ [GetViewpoint, GetViewMatrix]\<rparr>)"
  by (simp add: getCameraMeta_def logCall_def)

lemma updateViewpoint_eq:
  "updateViewpoint R E m an d s =
     s\<lparr>calls := calls s @ [GetViewpoint, GetViewMatrix,
                            if an then AnimateTo m (fl R (exact_div d (Fin 1000))) else SetView m],
       runtime := (if an then animateTo E m (fl R (exact_div d (Fin 1000))) (runtime s)
                   else setView E m (runtime s)),
       needRender := True\<rparr>"
  by (simp add: updateViewpoint_def getCameraMeta_eq logCall_def js_div_def Let_def)

lemma rotate_scene_X:
  "rotate_scene R E X_AXIS angle animate duration s =
     (Inr (),
      updateViewpoint R E (mult E (viewMatrix E (runtime s)) (rotationX E (radians R angle)))
        (withDefault True animate) (withDefault (Fin 400) duration)
        (s\<lparr>calls := calls s @ [GetViewpoint, GetViewMatrix, RotationX (radians R angle),
               Mult (viewMatrix E (runtime s)) (rotationX E (radians R angle))]\<rparr>))"
  by (simp add: rotate_scene_def getCameraMeta_eq logCall_def Let_def getRadian_radians)

lemma rotate_scene_Y:
  "rotate_scene R E Y_AXIS angle animate duration s =
     (Inr (),
      updateViewpoint R E (mult E (viewMatrix E (runtime s)) (rotationY E (radians R angle)))
        (withDefault True animate) (withDefault (Fin 400) duration)
        (s\<lparr>calls := calls s @ [GetViewpoint, GetViewMatrix, RotationY (radians R angle),
               Mult (viewMatrix E (runtime s)) (rotationY E (radians R angle))]\<rparr>))"
  by (simp add: rotate_scene_def getCameraMeta_eq logCall_def Let_def X_AXIS_def Y_AXIS_def
        getRadian_radians)

lemma zoom_eq:
  "zoom R E zoomValue animate duration s =
     (let k = zoomScalar R (withDefault (Fin 2) zoomValue)
      in updateViewpoint R E (mult E (viewMatrix E (runtime s)) (scale E (k, k, k)))
           (withDefault True animate) (withDefault (Fin 400) duration)
           (s\<lparr>calls := calls s @ [GetViewpoint, GetViewMatrix, Scale (k, k, k),
                  Mult (viewMatrix E (runtime s)) (scale E (k, k, k))]\<rparr>))"
  by (simp add: zoom_def getCameraMeta_eq logCall_def Let_def)

lemma zoom_calls:
  "calls (zoom R E (Some f) animate duration s) =
     (let k = zoomScalar R f
      in calls s @ [GetViewpoint, GetViewMatrix, Scale (k, k, k),
                    Mult (viewMatrix E (runtime s)) (scale E (k, k, k)),
                    GetViewpoint, GetViewMatrix,
                    if withDefault True animate
                    then AnimateTo (mult E (viewMatrix E (runtime s)) (scale E (k, k, k)))
                           (fl R (exact_div (withDefault (Fin 400) duration) (Fin 1000)))
                    else SetView (mult E (viewMatrix E (runtime s)) (scale E (k, k, k)))])"
  by (simp add: zoom_eq updateViewpoint_eq withDefault_def Let_def)

text \<open>
  C3. For an axis that is neither \<open>X_AXIS\<close> nor \<open>Y_AXIS\<close>, \<open>rotate\<close> raises a \<open>RangeError\<close>
  whose message quotes the axis. Up to that point the engine has only been asked for
  the viewpoint and the current matrix: no rotation matrix has been built, no
  product taken, and the viewpoint has not been updated.
\<close>

theorem rotate_unsupported_axis:
  assumes "axis \<noteq> X_AXIS" and "axis \<noteq> Y_AXIS"
  shows "rotate_scene R E axis angle animate duration s =
           (Inl (RangeError (''Axis \"'' @ axis @ ''\" is not supported!'')),
            s\<lparr>calls := calls s @ [GetViewpoint, GetViewMatrix]\<rparr>)
         \<and> filter matrixComputation
               (calls (snd (rotate_scene R E axis angle animate duration s)))
             = filter matrixComputation (calls s)"
  using assms by (simp add: rotate_scene_def getCameraMeta_eq Let_def)

theorem rotate_unsupported_axis_witness:
  "rotate_scene toyRound toyEngine ''z'' (Fin 90) None None toyHelper =
     (Inl (RangeError ''Axis \"z\" is not supported!''),
      toyHelper\<lparr>calls := [GetViewpoint, GetViewMatrix]\<rparr>)"
  using rotate_unsupported_axis[of "''z''" toyRound toyEngine "Fin 90" None None toyHelper]
  by (simp add: X_AXIS_def Y_AXIS_def toyHelper_def)

text \<open>
  C4. \<open>getRadian\<close> computes \<open>Math.PI * deg / 180\<close> in the arithmetic of the language; in
  exact arithmetic that is \<open>pi * deg / 180\<close>. For either axis, \<open>rotate\<close> builds the
  rotation matrix of that axis from the angle so converted, takes the product
  \<open>camera.matrix.mult(rotationMatrix)\<close> with the current view matrix as the receiver,
  and hands the product to the viewpoint update. \<open>zoom\<close> does the same with the scaling
  matrix built from three equal components, for every factor, given or defaulted.
  The viewpoint update passes the matrix it is given to \<open>animateTo\<close>, with the
  duration in seconds, or to \<open>setView\<close>, and sets \<open>needRender\<close>.
\<close>

theorem rotate_zoom_compose:
  "getRadian R angle = fl R (exact_div (fl R (exact_mul (R pi) angle)) (Fin 180))
   \<and> getRadian Fin (Fin a) = Fin (pi * a / 180)
   \<and> rotate_scene R E X_AXIS angle animate duration s =
     (Inr (),
      updateViewpoint R E
        (mult E (viewMatrix E (runtime s))
           (rotationX E (fl R (exact_div (fl R (exact_mul (R pi) angle)) (Fin 180)))))
        (withDefault True animate) (withDefault (Fin 400) duration)
        (s\<lparr>calls := calls s @ [GetViewpoint, GetViewMatrix,
               RotationX (fl R (exact_div (fl R (exact_mul (R pi) angle)) (Fin 180))),
               Mult (viewMatrix E (runtime s))
                 (rotationX E (fl R (exact_div (fl R (exact_mul (R pi) angle)) (Fin 180))))]\<rparr>))
   \<and> rotate_scene R E Y_AXIS angle animate duration s =
     (Inr (),
      updateViewpoint R E
        (mult E (viewMatrix E (runtime s))
           (rotationY E (fl R (exact_div (fl R (exact_mul (R pi) angle)) (Fin 180)))))
        (withDefault True animate) (withDefault (Fin 400) duration)
        (s\<lparr>calls := calls s @ [GetViewpoint, GetViewMatrix,
               RotationY (fl R (exact_div (fl R (exact_mul (R pi) angle)) (Fin 180))),
               Mult (viewMatrix E (runtime s))
                 (rotationY E (fl R (exact_div (fl R (exact_mul (R pi) angle)) (Fin 180))))]\<rparr>))
   \<and> zoom R E factor animate duration s =
      (let k = zoomScalar R (withDefault (Fin 2) factor)
       in updateViewpoint R E (mult E (viewMatrix E (runtime s)) (scale E (k, k, k)))
            (withDefault True animate) (withDefault (Fin 400) duration)
            (s\<lparr>calls := calls s @ [GetViewpoint, GetViewMatrix, Scale (k, k, k),
                   Mult (viewMatrix E (runtime s)) (scale E (k, k, k))]\<rparr>))
   \<and> updateViewpoint R E m an d s' =
       s'\<lparr>calls := calls s' @ [GetViewpoint, GetViewMatrix,
               if an then AnimateTo m (fl R (exact_div d (Fin 1000))) else SetView m],
          runtime := (if an then animateTo E m (fl R (exact_div d (Fin 1000))) (runtime s')
                      else setView E m (runtime s')),
          needRender := True\<rparr>"
proof -
  have g: "getRadian R angle = fl R (exact_div (fl R (exact_mul (R pi) angle)) (Fin 180))"
    by (simp add: getRadian_radians radians_def)
  have e: "getRadian Fin (Fin a) = Fin (pi * a / 180)"
    by (simp add: getRadian_radians radians_def)
  have x: "rotate_scene R E X_AXIS angle animate duration s =
     (Inr (),
      updateViewpoint R E
        (mult E (viewMatrix E (runtime s))
           (rotationX E (fl R (exact_div (fl R (exact_mul (R pi) angle)) (Fin 180)))))
        (withDefault True animate) (withDefault (Fin 400) duration)
        (s\<lparr>calls := calls s @ [GetViewpoint, GetViewMatrix,
               RotationX (fl R (exact_div (fl R (exact_mul (R pi) angle)) (Fin 180))),
               Mult (viewMatrix E (runtime s))
                 (rotationX E (fl R (exact_div (fl R (exact_mul (R pi) angle)) (Fin 180))))]\<rparr>))"
    unfolding rotate_scene_X radians_def by (rule refl)
  have y: "rotate_scene R E Y_AXIS angle animate duration s =
     (Inr (),
      updateViewpoint R E
        (mult E (viewMatrix E (runtime s))
           (rotationY E (fl R (exact_div (fl R (exact_mul (R pi) angle)) (Fin 180)))))
        (withDefault True animate) (withDefault (Fin 400) duration)
        (s\<lparr>calls := calls s @ [GetViewpoint, GetViewMatrix,
               RotationY (fl R (exact_div (fl R (exact_mul (R pi) angle)) (Fin 180))),
               Mult (viewMatrix E (runtime s))
                 (rotationY E (fl R (exact_div (fl R (exact_mul (R pi) angle)) (Fin 180))))]\<rparr>))"
    unfolding rotate_scene_Y radians_def by (rule refl)
  note z = zoom_eq[of R E factor animate duration s]
  note u = updateViewpoint_eq[of R E m an d s']
  from g e x y z u show ?thesis by (intro conjI)
qed

text \<open>
  In exact arithmetic 180 degrees are \<open>pi\<close>. With view matrix \<open>M\<close> the rotation about X
  sets the view to the product \<open>MX\<close>, not \<open>XM\<close>, and the zoom by 3 starts a transition
  of 0.4 seconds to \<open>MS\<close>.
\<close>

theorem rotate_zoom_compose_witness:
  "getRadian Fin (Fin 180) = Fin pi
   \<and> rotate_scene Fin toyEngine ''x'' (Fin 180) (Some False) None toyHelper
     = (Inr (),
        \<lparr>runtime = ''MX'', needRender = True,
          calls = [GetViewpoint, GetViewMatrix, RotationX (Fin pi), Mult ''M'' ''X'',
                   GetViewpoint, GetViewMatrix, SetView ''MX''],
          clock = 0, timers = []\<rparr>)
   \<and> zoom Fin toyEngine (Some (Fin 3)) None None toyHelper
     = \<lparr>runtime = ''MS'', needRender = True,
         calls = [GetViewpoint, GetViewMatrix, Scale (Fin 3, Fin 3, Fin 3), Mult ''M'' ''S'',
                  GetViewpoint, GetViewMatrix, AnimateTo ''MS'' (Fin (2 / 5))],
         clock = 0, timers = []\<rparr>"
proof -
  note t = rotate_zoom_compose[of Fin "Fin 180" 180 toyEngine "Some False" None toyHelper
      "Some (Fin 3)" "''MX''" False "Fin 400"]
  note t2 = rotate_zoom_compose[of Fin "Fin 180" 180 toyEngine None None toyHelper
      "Some (Fin 3)" "''MS''" True "Fin 400"]
  have v: "viewMatrix toyEngine (runtime toyHelper) = ''M''"
    "rotationX toyEngine (Fin pi) = ''X''" "mult toyEngine ''M'' ''X'' = ''MX''"
    "scale toyEngine (Fin 3, Fin 3, Fin 3) = ''S''" "mult toyEngine ''M'' ''S'' = ''MS''"
    by (simp_all add: toyEngine_def toyHelper_def)
  have a: "getRadian Fin (Fin 180) = Fin pi"
    using t by simp
  have k: "zoomScalar Fin (Fin 3) = Fin 3"
    by (simp add: zoomScalar_def js_mul_def)
  have b: "rotate_scene Fin toyEngine ''x'' (Fin 180) (Some False) None toyHelper
     = (Inr (),
        \<lparr>runtime = ''MX'', needRender = True,
          calls = [GetViewpoint, GetViewMatrix, RotationX (Fin pi), Mult ''M'' ''X'',
                   GetViewpoint, GetViewMatrix, SetView ''MX''],
          clock = 0, timers = []\<rparr>)"
    using t
    by (simp add: X_AXIS_def v withDefault_def updateViewpoint_eq)
      (simp add: toyEngine_def toyHelper_def)
  have c: "zoom Fin toyEngine (Some (Fin 3)) None None toyHelper
     = \<lparr>runtime = ''MS'', needRender = True,
         calls = [GetViewpoint, GetViewMatrix, Scale (Fin 3, Fin 3, Fin 3), Mult ''M'' ''S'',
                  GetViewpoint, GetViewMatrix, AnimateTo ''MS'' (Fin (2 / 5))],
         clock = 0, timers = []\<rparr>"
    using t2
    by (simp add: v k withDefault_def Let_def updateViewpoint_eq)
      (simp add: toyEngine_def toyHelper_def)
  from a b c show ?thesis by simp
qed

lemma zoomScalar_pos: "js_gt k (Fin 0) \<Longrightarrow> fl R k = k \<Longrightarrow> zoomScalar R k = k"
  by (cases k) (simp_all add: zoomScalar_def js_mul_def inf_of_sign_def)

lemma zoomScalar_neg:
  "js_gt (Fin 0) k \<Longrightarrow> zoomScalar R k = js_abs (fl R (exact_div (Fin 1) k))"
  by (cases k) (simp_all add: zoomScalar_def js_div_def)

lemma js_abs_fl_neg:
  assumes "symmetricRounding R" and "r < 0"
  shows "js_abs (R (1 / r)) = js_abs (R (1 / \<bar>r\<bar>))"
proof -
  have e: "1 / r = - (1 / \<bar>r\<bar>)"
    using assms(2) by simp
  have "R (1 / r) = js_neg (R (1 / \<bar>r\<bar>))"
    unfolding e using assms(1) by (simp only: symmetricRounding_def)
  then show ?thesis by (cases "R (1 / \<bar>r\<bar>)") simp_all
qed

text \<open>
  C5. For a positive factor \<open>k\<close> that is a number of the language, \<open>zoom\<close> scales by \<open>k\<close>
  itself: the scaling matrix is built from \<open>(k, k, k)\<close>. For a negative factor \<open>zoom\<close>
  builds the scaling matrix from the absolute value of the quotient \<open>1 / k\<close>, which
  for a finite \<open>k\<close> and a rounding that treats a value and its negative alike is the
  absolute value of the number for \<open>1 / |k|\<close>. \<open>zoomIn(v, ...)\<close> is \<open>zoom\<close> at \<open>|v|\<close> and
  \<open>zoomOut(v, ...)\<close> is \<open>zoom\<close> at \<open>|v| * -1\<close>, which for a finite \<open>v\<close> is the number for \<open>-|v|\<close>.
\<close>

theorem zoom_factor_sign:
  "(js_gt k (Fin 0) \<and> fl R k = k \<longrightarrow>
      calls (zoom R E (Some k) animate duration s)
        = calls s @ [GetViewpoint, GetViewMatrix, Scale (k, k, k),
                     Mult (viewMatrix E (runtime s)) (scale E (k, k, k)),
                     GetViewpoint, GetViewMatrix,
                     if withDefault True animate
                     then AnimateTo (mult E (viewMatrix E (runtime s)) (scale E (k, k, k)))
                            (fl R (exact_div (withDefault (Fin 400) duration) (Fin 1000)))
                     else SetView (mult E (viewMatrix E (runtime s)) (scale E (k, k, k)))])
   \<and> (js_gt (Fin 0) k \<longrightarrow>
      (let c = js_abs (fl R (exact_div (Fin 1) k))
       in calls (zoom R E (Some k) animate duration s)
        = calls s @ [GetViewpoint, GetViewMatrix, Scale (c, c, c),
                     Mult (viewMatrix E (runtime s)) (scale E (c, c, c)),
                     GetViewpoint, GetViewMatrix,
                     if withDefault True animate
                     then AnimateTo (mult E (viewMatrix E (runtime s)) (scale E (c, c, c)))
                            (fl R (exact_div (withDefault (Fin 400) duration) (Fin 1000)))
                     else SetView (mult E (viewMatrix E (runtime s)) (scale E (c, c, c)))]))
   \<and> (r < 0 \<longrightarrow> js_abs (fl R (exact_div (Fin 1) (Fin r))) = js_abs (R (1 / r)))
   \<and> (r < 0 \<and> symmetricRounding R \<longrightarrow>
        js_abs (fl R (exact_div (Fin 1) (Fin r))) = js_abs (R (1 / \<bar>r\<bar>)))
   \<and> zoomIn R E (Some v) animate duration s
       = zoom R E (Some (js_abs v)) (Some (withDefault True animate))
           (Some (withDefault (Fin 400) duration)) s
   \<and> zoomOut R E (Some v) animate duration s
       = zoom R E (Some (fl R (exact_mul (js_abs v) (Fin (- 1)))))
           (Some (withDefault True animate)) (Some (withDefault (Fin 400) duration)) s
   \<and> fl R (exact_mul (js_abs (Fin r)) (Fin (- 1))) = R (- \<bar>r\<bar>)"
proof -
  have a: "js_gt k (Fin 0) \<and> fl R k = k \<longrightarrow>
      calls (zoom R E (Some k) animate duration s)
        = calls s @ [GetViewpoint, GetViewMatrix, Scale (k, k, k),
                     Mult (viewMatrix E (runtime s)) (scale E (k, k, k)),
                     GetViewpoint, GetViewMatrix,
                     if withDefault True animate
                     then AnimateTo (mult E (viewMatrix E (runtime s)) (scale E (k, k, k)))
                            (fl R (exact_div (withDefault (Fin 400) duration) (Fin 1000)))
                     else SetView (mult E (viewMatrix E (runtime s)) (scale E (k, k, k)))]"
    by (simp add: zoom_calls zoomScalar_pos Let_def)
  have b: "js_gt (Fin 0) k \<longrightarrow>
      (let c = js_abs (fl R (exact_div (Fin 1) k))
       in calls (zoom R E (Some k) animate duration s)
        = calls s @ [GetViewpoint, GetViewMatrix, Scale (c, c, c),
                     Mult (viewMatrix E (runtime s)) (scale E (c, c, c)),
                     GetViewpoint, GetViewMatrix,
                     if withDefault True animate
                     then AnimateTo (mult E (viewMatrix E (runtime s)) (scale E (c, c, c)))
                            (fl R (exact_div (withDefault (Fin 400) duration) (Fin 1000)))
                     else SetView (mult E (viewMatrix E (runtime s)) (scale E (c, c, c)))])"
    by (simp add: zoom_calls zoomScalar_neg Let_def)
  have c: "r < 0 \<longrightarrow> js_abs (fl R (exact_div (Fin 1) (Fin r))) = js_abs (R (1 / r))"
    by simp
  have d: "r < 0 \<and> symmetricRounding R \<longrightarrow>
        js_abs (fl R (exact_div (Fin 1) (Fin r))) = js_abs (R (1 / \<bar>r\<bar>))"
    using js_abs_fl_neg[of R r] by simp
  have e: "zoomIn R E (Some v) animate duration s
       = zoom R E (Some (js_abs v)) (Some (withDefault True animate))
           (Some (withDefault (Fin 400) duration)) s"
    by (simp add: zoomIn_def withDefault_def)
  have f: "zoomOut R E (Some v) animate duration s
       = zoom R E (Some (fl R (exact_mul (js_abs v) (Fin (- 1)))))
           (Some (withDefault True animate)) (Some (withDefault (Fin 400) duration)) s"
    by (simp add: zoomOut_def withDefault_def js_mul_def)
  have g: "fl R (exact_mul (js_abs (Fin r)) (Fin (- 1))) = R (- \<bar>r\<bar>)" by simp
  from a b c d e f g show ?thesis by (intro conjI)
qed

text \<open>
  Zoom by 2 scales by 2, zoom by -2 scales by one half, and \<open>zoomOut(2)\<close> is zoom by
  -2.
\<close>

theorem zoom_factor_sign_witness:
  "calls (zoom toyRound toyEngine (Some (Fin 2)) None None toyHelper)
     = [GetViewpoint, GetViewMatrix, Scale (Fin 2, Fin 2, Fin 2), Mult ''M'' ''S'',
        GetViewpoint, GetViewMatrix, AnimateTo ''MS'' (Fin (2 / 5))]
   \<and> calls (zoom toyRound toyEngine (Some (Fin (- 2))) None None toyHelper)
     = [GetViewpoint, GetViewMatrix, Scale (Fin (1 / 2), Fin (1 / 2), Fin (1 / 2)),
        Mult ''M'' ''S'', GetViewpoint, GetViewMatrix, AnimateTo ''MS'' (Fin (2 / 5))]
   \<and> zoomOut toyRound toyEngine (Some (Fin 2)) None None toyHelper
      = zoom toyRound toyEngine (Some (Fin (- 2))) (Some True) (Some (Fin 400)) toyHelper"
proof -
  note p = zoom_factor_sign[of "Fin 2" toyRound toyEngine None None toyHelper "- 2" "Fin 2"]
  note n = zoom_factor_sign[of "Fin (- 2)" toyRound toyEngine None None toyHelper "- 2" "Fin 2"]
  have v: "viewMatrix toyEngine (runtime toyHelper) = ''M''" "calls toyHelper = []"
    "\<And>x. scale toyEngine x = ''S''" "mult toyEngine ''M'' ''S'' = ''MS''"
    by (simp_all add: toyEngine_def toyHelper_def)
  have s: "symmetricRounding toyRound"
    by (simp add: symmetricRounding_def toyRound_def inf_of_sign_def)
  have r: "toyRound 2 = Fin 2" "toyRound (- 2) = Fin (- 2)" "toyRound (1 / 2) = Fin (1 / 2)"
    "toyRound (- (1 / 2)) = Fin (- (1 / 2))" "toyRound (2 / 5) = Fin (2 / 5)"
    by (simp_all add: toyRound_def)
  from p have a: "calls (zoom toyRound toyEngine (Some (Fin 2)) None None toyHelper)
     = [GetViewpoint, GetViewMatrix, Scale (Fin 2, Fin 2, Fin 2), Mult ''M'' ''S'',
        GetViewpoint, GetViewMatrix, AnimateTo ''MS'' (Fin (2 / 5))]"
    by (simp add: v r withDefault_def)
  from n s have b: "calls (zoom toyRound toyEngine (Some (Fin (- 2))) None None toyHelper)
     = [GetViewpoint, GetViewMatrix, Scale (Fin (1 / 2), Fin (1 / 2), Fin (1 / 2)),
        Mult ''M'' ''S'', GetViewpoint, GetViewMatrix, AnimateTo ''MS'' (Fin (2 / 5))]"
    by (simp add: v r withDefault_def Let_def)
  from p have c: "zoomOut toyRound toyEngine (Some (Fin 2)) None None toyHelper
      = zoom toyRound toyEngine (Some (Fin (- 2))) (Some True) (Some (Fin 400)) toyHelper"
    by (simp add: r withDefault_def)
  from a b c show ?thesis by simp
qed

text \<open>
  C10. At the factor 0 the test \<open>zoomValue > 0\<close> fails, the scale is \<open>Math.abs(1 / 0)\<close>,
  and that is infinite: \<open>zoom\<close>, animated or not, builds the scaling matrix from three
  infinite components and hands the product to the viewpoint update. At a finite
  factor other than 0 no division by zero takes place: the scale is the number for
  the factor or the absolute value of the number for its reciprocal.
\<close>

theorem zoom_zero_divides_by_zero:
  "\<not> js_gt (Fin 0) (Fin 0)
   \<and> exact_div (Fin 1) (Fin 0) = PInf
   \<and> zoomScalar R (Fin 0) = PInf
   \<and> zoom R E (Some (Fin 0)) animate duration s
       = updateViewpoint R E
           (mult E (viewMatrix E (runtime s)) (scale E (PInf, PInf, PInf)))
           (withDefault True animate) (withDefault (Fin 400) duration)
           (s\<lparr>calls := calls s @ [GetViewpoint, GetViewMatrix, Scale (PInf, PInf, PInf),
                  Mult (viewMatrix E (runtime s)) (scale E (PInf, PInf, PInf))]\<rparr>)
   \<and> calls (zoom R E (Some (Fin 0)) animate duration s)
       = calls s @ [GetViewpoint, GetViewMatrix, Scale (PInf, PInf, PInf),
                    Mult (viewMatrix E (runtime s)) (scale E (PInf, PInf, PInf)),
                    GetViewpoint, GetViewMatrix,
                    if withDefault True animate
                    then AnimateTo (mult E (viewMatrix E (runtime s)) (scale E (PInf, PInf, PInf)))
                           (fl R (exact_div (withDefault (Fin 400) duration) (Fin 1000)))
                    else SetView (mult E (viewMatrix E (runtime s)) (scale E (PInf, PInf, PInf)))]
   \<and> (r \<noteq> 0 \<longrightarrow> zoomScalar R (Fin r) = (if 0 < r then R r else js_abs (R (1 / r))))"
proof -
  have z: "zoomScalar R (Fin 0) = PInf"
    by (simp add: zoomScalar_def js_div_def inf_of_sign_def)
  have n: "r \<noteq> 0 \<longrightarrow> zoomScalar R (Fin r) = (if 0 < r then R r else js_abs (R (1 / r)))"
    by (simp add: zoomScalar_def js_div_def js_mul_def)
  have w: "zoom R E (Some (Fin 0)) animate duration s
       = updateViewpoint R E
           (mult E (viewMatrix E (runtime s)) (scale E (PInf, PInf, PInf)))
           (withDefault True animate) (withDefault (Fin 400) duration)
           (s\<lparr>calls := calls s @ [GetViewpoint, GetViewMatrix, Scale (PInf, PInf, PInf),
                  Mult (viewMatrix E (runtime s)) (scale E (PInf, PInf, PInf))]\<rparr>)"
    by (simp add: zoom_eq z withDefault_def)
  have c: "calls (zoom R E (Some (Fin 0)) animate duration s)
       = calls s @ [GetViewpoint, GetViewMatrix, Scale (PInf, PInf, PInf),
                    Mult (viewMatrix E (runtime s)) (scale E (PInf, PInf, PInf)),
                    GetViewpoint, GetViewMatrix,
                    if withDefault True animate
                    then AnimateTo (mult E (viewMatrix E (runtime s)) (scale E (PInf, PInf, PInf)))
                           (fl R (exact_div (withDefault (Fin 400) duration) (Fin 1000)))
                    else SetView (mult E (viewMatrix E (runtime s)) (scale E (PInf, PInf, PInf)))]"
    by (simp add: zoom_calls z Let_def)
  have g: "\<not> js_gt (Fin 0) (Fin 0)" "exact_div (Fin 1) (Fin 0) = PInf"
    by (simp_all add: inf_of_sign_def)
  from g z w c n show ?thesis by (intro conjI)
qed

text \<open>
  \<open>zoom(0)\<close> with the defaults starts a transition to the product with the infinite
  scaling matrix. Under a rounding that overflows beyond 1000 the factor -1/2000
  gives an infinite scale too, by overflow of the quotient and not by a division
  by zero.
\<close>

theorem zoom_zero_divides_by_zero_witness:
  "calls (zoom toyRound toyEngine (Some (Fin 0)) None None toyHelper)
     = [GetViewpoint, GetViewMatrix, Scale (PInf, PInf, PInf), Mult ''M'' ''S'',
        GetViewpoint, GetViewMatrix, AnimateTo ''MS'' (Fin (2 / 5))]
   \<and> zoomScalar toyRound (Fin 4) = Fin 4
   \<and> zoomScalar toyRound (Fin (- 4)) = Fin (1 / 4)
   \<and> zoomScalar toyRound (Fin (- (1 / 2000))) = PInf"
proof -
  note a = zoom_zero_divides_by_zero[of toyRound toyEngine None None toyHelper 4]
  note b = zoom_zero_divides_by_zero[of toyRound toyEngine None None toyHelper "- 4"]
  note c = zoom_zero_divides_by_zero[of toyRound toyEngine None None toyHelper "- (1 / 2000)"]
  have v: "viewMatrix toyEngine (runtime toyHelper) = ''M''" "calls toyHelper = []"
    "\<And>x. scale toyEngine x = ''S''" "mult toyEngine ''M'' ''S'' = ''MS''"
    by (simp_all add: toyEngine_def toyHelper_def)
  have r: "toyRound 4 = Fin 4" "toyRound (- (1 / 4)) = Fin (- (1 / 4))"
    "toyRound (- 2000) = NInf" "toyRound (2 / 5) = Fin (2 / 5)"
    by (simp_all add: toyRound_def inf_of_sign_def)
  from a have 1: "calls (zoom toyRound toyEngine (Some (Fin 0)) None None toyHelper)
     = [GetViewpoint, GetViewMatrix, Scale (PInf, PInf, PInf), Mult ''M'' ''S'',
        GetViewpoint, GetViewMatrix, AnimateTo ''MS'' (Fin (2 / 5))]"
    by (simp add: v r withDefault_def updateViewpoint_eq)
  from a have 2: "zoomScalar toyRound (Fin 4) = Fin 4" by (simp add: r)
  from b have 3: "zoomScalar toyRound (Fin (- 4)) = Fin (1 / 4)" by (simp add: r)
  from c have 4: "zoomScalar toyRound (Fin (- (1 / 2000))) = PInf" by (simp add: r)
  from 1 2 3 4 show ?thesis by simp
qed

section \<open>The full turn\<close>

lemma rotate_scene_timers:
  "rotate_scene R E axis angle animate duration (s\<lparr>timers := x\<rparr>) =
     (fst (rotate_scene R E axis angle animate duration s),
      (snd (rotate_scene R E axis angle animate duration s))\<lparr>timers := x\<rparr>)"
  by (simp add: rotate_scene_def getCameraMeta_eq updateViewpoint_eq logCall_def Let_def)

lemma rotate_scene_keeps:
  "timers (snd (rotate_scene R E axis angle animate duration s)) = timers s"
  "clock (snd (rotate_scene R E axis angle animate duration s)) = clock s"
  by (simp_all add: rotate_scene_def getCameraMeta_eq updateViewpoint_eq logCall_def Let_def)

lemma passTime_timers: "passTime E t (s\<lparr>timers := x\<rparr>) = (passTime E t s)\<lparr>timers := x\<rparr>"
  by (simp add: passTime_def)

lemma passTime_keeps: "timers (passTime E t s) = timers s"
  by (simp add: passTime_def)

lemma passTime_calls: "calls (passTime E t s) = calls s"
  by (simp add: passTime_def)

lemma runTask_timers: "runTask R E k (s\<lparr>timers := x\<rparr>) = (runTask R E k s)\<lparr>timers := x\<rparr>"
  by (cases k) (simp add: rotate_scene_timers)

lemma runTask_keeps: "timers (runTask R E k s) = timers s"
  by (cases k) (simp add: rotate_scene_keeps)

lemma runTasks_timers:
  "runTasks R E ks (s\<lparr>timers := x\<rparr>) = (runTasks R E ks s)\<lparr>timers := x\<rparr>"
proof (induction ks arbitrary: s)
  case Nil
  then show ?case by simp
next
  case (Cons e ks)
  obtain due k where e: "e = (due, k)" by (cases e)
  show ?case
    unfolding e by (simp add: passTime_timers runTask_timers Cons.IH)
qed

lemma runTasks_keeps: "timers (runTasks R E ks s) = timers s"
proof (induction ks arbitrary: s)
  case Nil
  then show ?case by simp
next
  case (Cons e ks)
  obtain due k where e: "e = (due, k)" by (cases e)
  show ?case
    unfolding e by (simp add: Cons.IH runTask_keeps passTime_keeps)
qed

text \<open>
  A callback that is not yet due at time \<open>t\<close> has no part in what happens up to \<open>t\<close>:
  it is still pending afterwards and everything else is as if it had not been
  queued.
\<close>

lemma advanceTo_pending:
  assumes "t < due"
  shows "advanceTo R E t (s\<lparr>timers := timers s @ [(due, k)]\<rparr>) =
           (advanceTo R E t s)\<lparr>timers := timers (advanceTo R E t s) @ [(due, k)]\<rparr>"
proof (cases "t < clock s")
  case True
  then show ?thesis by (simp add: advanceTo_def)
next
  case False
  have n: "\<not> due \<le> t" using assms by simp
  let ?ds = "sort_key fst (filter (\<lambda>e. fst e \<le> t) (timers s))"
  let ?rest = "filter (\<lambda>e. \<not> fst e \<le> t) (timers s)"
  have l: "advanceTo R E t (s\<lparr>timers := timers s @ [(due, k)]\<rparr>)
             = (passTime E t (runTasks R E ?ds s))\<lparr>timers := ?rest @ [(due, k)]\<rparr>"
    using False n by (simp add: advanceTo_def Let_def runTasks_timers passTime_timers)
  have r: "advanceTo R E t s = (passTime E t (runTasks R E ?ds s))\<lparr>timers := ?rest\<rparr>"
    using False by (simp add: advanceTo_def Let_def runTasks_timers passTime_timers)
  show ?thesis unfolding l r by simp
qed

lemma advanceTo_single:
  assumes "timers s = []" and "clock s \<le> due" and "due \<le> t"
  shows "advanceTo R E t (s\<lparr>timers := [(due, k)]\<rparr>) =
           passTime E t (runTask R E k (passTime E due (s\<lparr>timers := []\<rparr>)))"
  using assms by (simp add: advanceTo_def Let_def)

lemma timerDelay_nonneg: "0 \<le> timerDelay v"
  by (simp add: timerDelay_def)

lemma timerDelay_whole:
  assumes "0 \<le> n" and "n < 2 ^ 31"
  shows "timerDelay (Fin (of_int n)) = of_int n"
proof -
  have "n mod 2 ^ 32 = n" using assms by simp
  then show ?thesis using assms by (simp add: timerDelay_def toInt32_def Let_def)
qed

lemma rotate_scene_Y_animated:
  "rotate_scene R E Y_AXIS (Fin 180) (Some True) (Some h) s =
     (Inr (),
      s\<lparr>calls := calls s @ rotateYCalls E (viewMatrix E (runtime s)) (radians R (Fin 180))
                            (fl R (exact_div h (Fin 1000))),
        runtime := animateTo E (mult E (viewMatrix E (runtime s))
                                  (rotationY E (radians R (Fin 180))))
                     (fl R (exact_div h (Fin 1000))) (runtime s),
        needRender := True\<rparr>)"
  by (simp add: rotate_scene_Y updateViewpoint_eq withDefault_def rotateYCalls_def)

lemma rotateRoundY_eq:
  "rotateRoundY R E duration s =
     (let h = fl R (exact_div (withDefault (Fin 4000) duration) (Fin 2));
          s0 = snd (rotate_scene R E Y_AXIS (Fin 180) (Some True) (Some h) s)
      in (Inr (), s0\<lparr>timers := timers s @ [(clock s + timerDelay h,
                                               RotateTask Y_AXIS (Fin 180) True h)]\<rparr>))"
  by (simp add: rotateRoundY_def rotate_scene_Y_animated setTimeout_def js_div_def Let_def)

text \<open>
  C8, as the code has it. \<open>rotateRoundY\<close>, for every duration given or defaulted and
  whatever timers are pending, rotates at once by 180 degrees about the Y axis,
  animated over half the duration, and queues one callback with that half as the
  delay. The callback is the same rotation, made from the view matrix current when
  it runs. It becomes due after the delay as the timer converts it, a 32-bit
  integer not below 0; until then it has no effect and stays pending, and with no
  other timer pending it runs when it is due. When half the duration is a whole
  number of milliseconds from 0 to below \<open>2^31\<close>, the converted delay is that half, so
  the second rotation is not issued before the first half's duration has passed.
\<close>

theorem rotateRoundY_second_half_deferred:
  "(let h = fl R (exact_div (withDefault (Fin 4000) duration) (Fin 2));
        k = RotateTask Y_AXIS (Fin 180) True h;
        due = clock s + timerDelay h;
        rad = fl R (exact_div (fl R (exact_mul (R pi) (Fin 180))) (Fin 180));
        secs = fl R (exact_div h (Fin 1000));
        turn = (\<lambda>s'. s'\<lparr>calls := calls s' @ rotateYCalls E (viewMatrix E (runtime s')) rad secs,
                          runtime := animateTo E (mult E (viewMatrix E (runtime s'))
                                                    (rotationY E rad)) secs (runtime s'),
                          needRender := True\<rparr>);
        s1 = (turn s)\<lparr>timers := timers s @ [(due, k)]\<rparr>
    in rotateRoundY R E duration s = (Inr (), s1)
       \<and> (\<forall>t. t < due \<longrightarrow>
             advanceTo R E t s1
               = (advanceTo R E t (turn s))
                   \<lparr>timers := timers (advanceTo R E t (turn s)) @ [(due, k)]\<rparr>)
       \<and> (\<forall>s'. runTask R E k s' = turn s')
       \<and> (timers s = [] \<longrightarrow>
            (\<forall>t. due \<le> t \<longrightarrow>
               advanceTo R E t s1 = passTime E t (turn (passTime E due (turn s)))))
       \<and> (\<forall>n. h = Fin (of_int n) \<and> 0 \<le> n \<and> n < 2 ^ 31 \<longrightarrow> due = clock s + of_int n))"
proof -
  define h where "h = fl R (exact_div (withDefault (Fin 4000) duration) (Fin 2))"
  define k where "k = RotateTask Y_AXIS (Fin 180) True h"
  define due where "due = clock s + timerDelay h"
  define rad where "rad = fl R (exact_div (fl R (exact_mul (R pi) (Fin 180))) (Fin 180))"
  define secs where "secs = fl R (exact_div h (Fin 1000))"
  define turn :: "('a, 'b) helper \<Rightarrow> ('a, 'b) helper" where
    "turn = (\<lambda>s'. s'\<lparr>calls := calls s' @ rotateYCalls E (viewMatrix E (runtime s')) rad secs,
                      runtime := animateTo E (mult E (viewMatrix E (runtime s'))
                                                (rotationY E rad)) secs (runtime s'),
                      needRender := True\<rparr>)"
  define s1 where "s1 = (turn s)\<lparr>timers := timers s @ [(due, k)]\<rparr>"
  have rd: "radians R (Fin 180) = rad"
    by (simp add: radians_def rad_def)
  have tn: "snd (rotate_scene R E Y_AXIS (Fin 180) (Some True) (Some h) s') = turn s'" for s'
    by (simp add: rotate_scene_Y_animated rd secs_def turn_def)
  have t0: "timers (turn s) = timers s" and c0: "clock (turn s) = clock s"
    by (simp_all add: turn_def)
  have 1: "rotateRoundY R E duration s = (Inr (), s1)"
    using tn[of s] by (simp add: rotateRoundY_eq Let_def s1_def due_def k_def h_def)
  have 2: "advanceTo R E t s1
             = (advanceTo R E t (turn s))
                 \<lparr>timers := timers (advanceTo R E t (turn s)) @ [(due, k)]\<rparr>"
    if "t < due" for t
    using advanceTo_pending[OF that, of R E "turn s" k] by (simp add: s1_def t0)
  have 3: "runTask R E k s' = turn s'" for s'
    by (simp add: k_def tn)
  have 4: "advanceTo R E t s1 = passTime E t (turn (passTime E due (turn s)))"
    if e: "timers s = []" and d: "due \<le> t" for t
  proof -
    have a: "timers (turn s) = []" using e t0 by simp
    have b: "clock (turn s) \<le> due" by (simp add: c0 due_def timerDelay_nonneg)
    have i: "(turn s)\<lparr>timers := []\<rparr> = turn s"
      using a by (cases "turn s") simp
    from advanceTo_single[OF a b d, of R E k] show ?thesis
      by (simp add: s1_def e i 3)
  qed
  have 5: "due = clock s + of_int n" if "h = Fin (of_int n)" "0 \<le> n" "n < 2 ^ 31" for n
    using that by (simp add: due_def timerDelay_whole)
  from 1 2 3 4 5 show ?thesis
    unfolding Let_def s1_def turn_def secs_def rad_def due_def k_def h_def
    by blast
qed

lemma toy_full_turn:
  "snd (rotateRoundY Fin toyEngine (Some (Fin d)) toyHelper) =
     \<lparr>runtime = ''MY'', needRender = True,
       calls = rotateYCalls toyEngine ''M'' (Fin pi) (Fin (d / 2 / 1000)),
       clock = 0, timers = [(timerDelay (Fin (d / 2)), RotateTask Y_AXIS (Fin 180) True (Fin (d / 2)))]\<rparr>"
  by (simp add: rotateRoundY_eq rotate_scene_Y_animated radians_def Let_def withDefault_def)
    (simp add: toyEngine_def toyHelper_def)

lemma toy_second_half:
  assumes "timerDelay (Fin (d / 2)) \<le> t"
  shows "calls (advanceTo Fin toyEngine t (snd (rotateRoundY Fin toyEngine (Some (Fin d)) toyHelper)))
           = rotateYCalls toyEngine ''M'' (Fin pi) (Fin (d / 2 / 1000))
             @ rotateYCalls toyEngine ''MY'' (Fin pi) (Fin (d / 2 / 1000))"
proof -
  have "0 \<le> t" using assms timerDelay_nonneg[of "Fin (d / 2)"] by linarith
  then show ?thesis
    using assms
    by (simp add: toy_full_turn advanceTo_def Let_def passTime_def rotate_scene_Y_animated
          radians_def)
      (simp add: toyEngine_def)
qed

text \<open>
  With the default duration of 4000 milliseconds: after 1999 milliseconds only the
  first half has been issued, after 2000 both, the second from the view matrix \<open>MY\<close>
  that the first has produced.
\<close>

theorem rotateRoundY_second_half_deferred_witness:
  "calls (snd (rotateRoundY Fin toyEngine None toyHelper))
     = rotateYCalls toyEngine ''M'' (Fin pi) (Fin 2)
   \<and> calls (advanceTo Fin toyEngine 1999 (snd (rotateRoundY Fin toyEngine None toyHelper)))
     = rotateYCalls toyEngine ''M'' (Fin pi) (Fin 2)
   \<and> timers (advanceTo Fin toyEngine 1999 (snd (rotateRoundY Fin toyEngine None toyHelper)))
     = [(2000, RotateTask Y_AXIS (Fin 180) True (Fin 2000))]
   \<and> calls (advanceTo Fin toyEngine 2000 (snd (rotateRoundY Fin toyEngine None toyHelper)))
     = rotateYCalls toyEngine ''M'' (Fin pi) (Fin 2) @ rotateYCalls toyEngine ''MY'' (Fin pi) (Fin 2)"
proof -
  define turn :: "(string, string) helper \<Rightarrow> (string, string) helper" where
    "turn = (\<lambda>s'. s'\<lparr>calls := calls s' @ rotateYCalls toyEngine (runtime s') (Fin pi) (Fin 2),
                      runtime := runtime s' @ ''Y'', needRender := True\<rparr>)"
  define k where "k = RotateTask Y_AXIS (Fin 180) True (Fin 2000)"
  have d: "timerDelay (Fin 2000) = 2000"
    using timerDelay_whole[of 2000] by simp
  have v: "clock toyHelper = 0" "timers toyHelper = []" "calls toyHelper = []"
    "runtime toyHelper = ''M''"
    by (simp_all add: toyHelper_def)
  have g: "viewMatrix toyEngine = (\<lambda>e. e)" "animateTo toyEngine = (\<lambda>m d e. m)"
    "mult toyEngine = (\<lambda>a b. a @ b)" "rotationY toyEngine = (\<lambda>a. ''Y'')"
    "elapse toyEngine = (\<lambda>dt e. e)"
    by (simp_all add: toyEngine_def)
  note t = rotateRoundY_second_half_deferred[of Fin None toyHelper toyEngine]
  from t have r: "rotateRoundY Fin toyEngine None toyHelper
                    = (Inr (), (turn toyHelper)\<lparr>timers := [(2000, k)]\<rparr>)"
    by (simp add: Let_def withDefault_def d v g turn_def k_def)
  from t have p: "\<forall>t<2000. advanceTo Fin toyEngine t ((turn toyHelper)\<lparr>timers := [(2000, k)]\<rparr>)
      = (advanceTo Fin toyEngine t (turn toyHelper))
          \<lparr>timers := timers (advanceTo Fin toyEngine t (turn toyHelper)) @ [(2000, k)]\<rparr>"
    by (simp add: Let_def withDefault_def d v g turn_def k_def)
  from t have q: "\<forall>t\<ge>2000. advanceTo Fin toyEngine t ((turn toyHelper)\<lparr>timers := [(2000, k)]\<rparr>)
      = passTime toyEngine t (turn (passTime toyEngine 2000 (turn toyHelper)))"
    by (simp add: Let_def withDefault_def d v g turn_def k_def)
  have c: "calls (turn toyHelper) = rotateYCalls toyEngine ''M'' (Fin pi) (Fin 2)"
    "timers (turn toyHelper) = []" "clock (turn toyHelper) = 0" "runtime (turn toyHelper) = ''MY''"
    by (simp_all add: turn_def v)
  have tc: "calls (turn x) = calls x @ rotateYCalls toyEngine (runtime x) (Fin pi) (Fin 2)" for x
    by (simp add: turn_def)
  have i: "(turn toyHelper)\<lparr>timers := []\<rparr> = turn toyHelper"
    using c(2) by (cases "turn toyHelper") simp
  have a0: "advanceTo Fin toyEngine 1999 (turn toyHelper) = passTime toyEngine 1999 (turn toyHelper)"
    by (simp add: advanceTo_def c Let_def i)
  from p have e1: "advanceTo Fin toyEngine 1999 ((turn toyHelper)\<lparr>timers := [(2000, k)]\<rparr>)
      = (passTime toyEngine 1999 (turn toyHelper))\<lparr>timers := [(2000, k)]\<rparr>"
    by (simp add: a0 passTime_keeps c)
  from q have e2: "advanceTo Fin toyEngine 2000 ((turn toyHelper)\<lparr>timers := [(2000, k)]\<rparr>)
      = passTime toyEngine 2000 (turn (passTime toyEngine 2000 (turn toyHelper)))"
    by simp
  have m: "runtime (passTime toyEngine 2000 (turn toyHelper)) = ''MY''"
    by (simp add: passTime_def c g)
  have f2: "calls (advanceTo Fin toyEngine 2000 ((turn toyHelper)\<lparr>timers := [(2000, k)]\<rparr>))
      = rotateYCalls toyEngine ''M'' (Fin pi) (Fin 2) @ rotateYCalls toyEngine ''MY'' (Fin pi) (Fin 2)"
    unfolding e2 by (simp add: passTime_calls tc m c v)
  have f1: "calls (advanceTo Fin toyEngine 1999 ((turn toyHelper)\<lparr>timers := [(2000, k)]\<rparr>))
      = rotateYCalls toyEngine ''M'' (Fin pi) (Fin 2)"
    "timers (advanceTo Fin toyEngine 1999 ((turn toyHelper)\<lparr>timers := [(2000, k)]\<rparr>)) = [(2000, k)]"
    unfolding e1 by (simp_all add: passTime_calls c)
  from r c f1 f2 show ?thesis by (simp add: k_def)
qed

text \<open>
  C8, as stated, fails. With a duration of \<open>2^32\<close> milliseconds half the duration is
  \<open>2^31\<close>, which the timer converts to a negative integer and so to no delay at all:
  after one second, long before \<open>2^31\<close> milliseconds have passed, the second rotation
  has been issued.
\<close>

theorem rotateRoundY_second_half_early:
  "(1000 :: real) < 4294967296 / 2
   \<and> timerDelay (Fin (4294967296 / 2)) = 0
   \<and> calls (advanceTo Fin toyEngine 1000
        (snd (rotateRoundY Fin toyEngine (Some (Fin 4294967296)) toyHelper)))
     = rotateYCalls toyEngine ''M'' (Fin pi) (Fin (4294967296 / 2 / 1000))
       @ rotateYCalls toyEngine ''MY'' (Fin pi) (Fin (4294967296 / 2 / 1000))"
proof -
  have d: "timerDelay (Fin (4294967296 / 2)) = 0"
    by (simp add: timerDelay_def toInt32_def Let_def)
  have "timerDelay (Fin (4294967296 / 2)) \<le> 1000" unfolding d by simp
  from toy_second_half[OF this] d show ?thesis by simp
qed

section \<open>Colour conversion\<close>

lemma hexDigit_plain:
  assumes "hexDigit c = Some v"
  shows "\<not> isLineTerminator c" "\<not> isWhiteSpace c" "c \<noteq> CHR ''-''" "c \<noteq> CHR ''+''"
    "c \<noteq> CHR ''x''" "c \<noteq> CHR ''X''"
  using assms
  by (auto simp: hexDigit_def isWhiteSpace_def isLineTerminator_def Let_def split: if_splits)

lemma parseInt16_pair:
  assumes "hexDigit a = Some x" and "hexDigit b = Some y"
  shows "parseInt16 [a, b] = Fin (real (16 * x + y))"
  using assms hexDigit_plain[OF assms(1)] hexDigit_plain[OF assms(2)]
  by (simp add: parseInt16_def)

lemma digitsOfNat_0: "digitsOfNat 0 = ''0''"
  by (simp add: digitsOfNat.simps)

lemma digitsOfNat_1: "digitsOfNat (Suc 0) = ''1''"
  by (subst digitsOfNat.simps) simp

lemma numberToString_0: "numberToString fmt (Fin 0) = ''0''"
  by (simp add: numberToString_def digitsOfNat_0)

lemma numberToString_1: "numberToString fmt (Fin 1) = ''1''"
  by (simp add: numberToString_def digitsOfNat_1)

lemma hexToRgbLine_six:
  assumes "hexDigit a = Some x1" "hexDigit b = Some x2" "hexDigit c = Some x3"
    "hexDigit d = Some x4" "hexDigit e = Some x5" "hexDigit f = Some x6"
  shows "hexToRgbLine fmt [a, b, c, d, e, f] =
     Inr (channel fmt x1 x2 @ '' '' @ channel fmt x3 x4 @ '' '' @ channel fmt x5 x6)"
proof -
  have m: "matchPairs [a, b, c, d, e, f] = [[a, b], [c, d], [e, f]]"
    using assms by (simp add: hexDigit_plain)
  show ?thesis
    unfolding hexToRgbLine_def m
    by (simp add: part_def Let_def channel_def
          parseInt16_pair[OF assms(1) assms(2)] parseInt16_pair[OF assms(3) assms(4)]
          parseInt16_pair[OF assms(5) assms(6)])
qed

lemma hexDigit_vals: "hexDigit CHR ''F'' = Some 15" "hexDigit CHR ''0'' = Some 0"
  by (simp_all add: hexDigit_def)

text \<open>
  C9. For a string of six hexadecimal digits \<open>hexToRgbLine\<close> returns the texts of three
  channels separated by single spaces, each channel being the byte read from two
  digits divided by 255. It returns \<open>1 0 0\<close> for \<open>FF0000\<close>, \<open>0 0 0\<close> for \<open>000000\<close> and \<open>1 1 1\<close>
  for \<open>FFFFFF\<close>.
\<close>

theorem hexToRgbLine_channels:
  "(hexDigit a = Some x1 \<and> hexDigit b = Some x2 \<and> hexDigit c = Some x3
      \<and> hexDigit d = Some x4 \<and> hexDigit e = Some x5 \<and> hexDigit f = Some x6 \<longrightarrow>
      hexToRgbLine fmt [a, b, c, d, e, f] =
        Inr (channel fmt x1 x2 @ '' '' @ channel fmt x3 x4 @ '' '' @ channel fmt x5 x6))
   \<and> hexToRgbLine fmt ''FF0000'' = Inr ''1 0 0''
   \<and> hexToRgbLine fmt ''000000'' = Inr ''0 0 0''
   \<and> hexToRgbLine fmt ''FFFFFF'' = Inr ''1 1 1''"
proof -
  have c1: "channel fmt 15 15 = ''1''" by (simp add: channel_def numberToString_1)
  have c0: "channel fmt 0 0 = ''0''" by (simp add: channel_def numberToString_0)
  have r: "hexToRgbLine fmt ''FF0000'' = Inr ''1 0 0''"
    using hexToRgbLine_six[of "CHR ''F''" 15 "CHR ''F''" 15 "CHR ''0''" 0 "CHR ''0''" 0
        "CHR ''0''" 0 "CHR ''0''" 0 fmt]
    by (simp add: hexDigit_vals c1 c0)
  have k: "hexToRgbLine fmt ''000000'' = Inr ''0 0 0''"
    using hexToRgbLine_six[of "CHR ''0''" 0 "CHR ''0''" 0 "CHR ''0''" 0 "CHR ''0''" 0
        "CHR ''0''" 0 "CHR ''0''" 0 fmt]
    by (simp add: hexDigit_vals c1 c0)
  have w: "hexToRgbLine fmt ''FFFFFF'' = Inr ''1 1 1''"
    using hexToRgbLine_six[of "CHR ''F''" 15 "CHR ''F''" 15 "CHR ''F''" 15 "CHR ''F''" 15
        "CHR ''F''" 15 "CHR ''F''" 15 fmt]
    by (simp add: hexDigit_vals c1 c0)
  from r k w show ?thesis by (simp add: hexToRgbLine_six)
qed

theorem hexToRgbLine_channels_witness:
  "hexToRgbLine (\<lambda>r. ''?'') ''80ff00'' = Inr ''? 1 0''
   \<and> hexToRgbLine (\<lambda>r. ''?'') ''FF0000'' = Inr ''1 0 0''"
  using hexToRgbLine_channels[of "CHR ''8''" 8 "CHR ''0''" 0 "CHR ''f''" 15 "CHR ''f''" 15
      "CHR ''0''" 0 "CHR ''0''" 0 "\<lambda>r. ''?''"]
  by (simp add: hexDigit_def channel_def numberToString_def digitsOfNat.simps)

section \<open>Highlighting and restoring a shape\<close>




lemma querySelectorAppearance_toyShape:
  "querySelectorAppearance htmlDoc toyShape
     = Some ''<appearance><material></material></appearance>''"
  "querySelectorAppearance xhtmlDoc toyShape
     = Some ''<appearance><material></material></appearance>''"
  by (simp_all add: querySelectorAppearance_def toyShape_def isAppearanceMarkup_def tagName_def
        toLower_def isTagEnd_def htmlDoc_def xhtmlDoc_def)









text \<open>
  C7. Let a shape have an appearance child and no stash (the property was never
  set, or is \<open>null\<close>). \<open>restoreShapeColor\<close> raises no error: it overwrites the markup of
  the appearance with the absent stash converted to text, after which the shape
  has no appearance child any more, and it sets the stash to \<open>null\<close>. The element is
  changed, so the call is not a no-op. This holds in either kind of document.
\<close>

theorem restore_without_highlight:
  assumes "querySelectorAppearance D el = Some m" and "\<not> truthy (origAppearance el)"
  shows "\<exists>el'. restoreShapeColor D el = Inr el'
           \<and> appearanceMarkup el' = Some (toMarkup (origAppearance el))
           \<and> origAppearance el' = JNull
           \<and> querySelectorAppearance D el' = None
           \<and> el' \<noteq> el"
proof -
  let ?el' = "el\<lparr>appearanceMarkup := Some (toMarkup (origAppearance el)),
                origAppearance := JNull\<rparr>"
  have r: "restoreShapeColor D el = Inr ?el'"
    using assms(1) by (simp add: restoreShapeColor_def)
  have n: "\<not> isAppearanceMarkup (kind D) (toMarkup (origAppearance el))"
    using assms(2) by (cases "origAppearance el") (simp_all add: isAppearanceMarkup_def)
  have q: "querySelectorAppearance D ?el' = None"
    using n by (simp add: querySelectorAppearance_def)
  have d: "?el' \<noteq> el"
    using q assms(1) by auto
  from r q d show ?thesis by simp
qed

theorem restore_without_highlight_witness:
  "restoreShapeColor htmlDoc toyShape
     = Inr \<lparr>appearanceMarkup = Some ''undefined'', origAppearance = JNull\<rparr>
   \<and> querySelectorAppearance htmlDoc
       \<lparr>appearanceMarkup = Some ''undefined'', origAppearance = JNull\<rparr>
     = None"
proof -
  note q = querySelectorAppearance_toyShape(1)
  have t: "\<not> truthy (origAppearance toyShape)" by (simp add: toyShape_def)
  from restore_without_highlight[OF q t]
  obtain el' where r: "restoreShapeColor htmlDoc toyShape = Inr el'"
    and m: "appearanceMarkup el' = Some (toMarkup (origAppearance toyShape))"
    and o: "origAppearance el' = JNull"
    and n: "querySelectorAppearance htmlDoc el' = None"
    by blast
  from m o have e: "el' = \<lparr>appearanceMarkup = Some ''undefined'', origAppearance = JNull\<rparr>"
    by (cases el') (simp add: toyShape_def)
  from r n show ?thesis unfolding e by simp
qed

end
